theory Spec2Isabelle
  imports Complex_Main
begin

section \<open>PositionableWaveDisplay: a shallow embedding\<close>

text \<open>
  The component of \<^verbatim>\<open>dRowAudio_PositionableWaveDisplay.cpp\<close> is modelled by explicit
  state passing: a record of its members, one function per member function, and a log of
  the requests it sends to the toolkit and to its collaborators.

  C++ \<^verbatim>\<open>int\<close> is \<^typ>\<open>int\<close>; the poller tick checks its conversions from double and
  its subtractions against the 32-bit range, outside of which C++ leaves them undefined.
  A \<^verbatim>\<open>double\<close> that the callers hand in is a finite \<^typ>\<open>real\<close>. A \<^verbatim>\<open>double\<close> that
  the component computes with the cached reciprocal, the scale factor, the cursor
  coordinate or the seek position is a value of the type \<open>dbl\<close> below: every operation
  rounds its exact result to the nearest binary64 number, overflows to an infinity, and
  shows a division by zero as an infinity or a NaN and not as the \<open>x / 0 = 0\<close> of HOL.
  Signed zeros are not distinguished. The geometry of \<open>paint\<close> and the start pixel of
  the press handlers are computed on exact reals and unbounded integers.
\<close>

subsection \<open>Doubles with infinities\<close>

datatype dbl = Fin real | PInf | NInf | NaN

fun is_zero :: "dbl \<Rightarrow> bool" where
  "is_zero (Fin a) = (a = 0)"
| "is_zero _ = False"

fun is_neg :: "dbl \<Rightarrow> bool" where
  "is_neg (Fin a) = (a < 0)"
| "is_neg NInf = True"
| "is_neg _ = False"

fun is_inf :: "dbl \<Rightarrow> bool" where
  "is_inf PInf = True"
| "is_inf NInf = True"
| "is_inf _ = False"

definition signed_inf :: "bool \<Rightarrow> dbl" where
  "signed_inf negative = (if negative then NInf else PInf)"

text \<open>Rounding to binary64, ties to even: the unit in the last place of \<open>x\<close> is
  \<open>2\<close> to the power \<open>\<lfloor>log 2 \<bar>x\<bar>\<rfloor> - 52\<close>, and never below \<open>-1074\<close>; a result of
  magnitude \<open>2 ^ 1024\<close> or more is an infinity.\<close>

definition pow2 :: "int \<Rightarrow> real" where
  "pow2 k = (if 0 \<le> k then 2 ^ nat k else 1 / 2 ^ nat (- k))"

definition roundToEven :: "real \<Rightarrow> int" where
  "roundToEven y =
     (let f = \<lfloor>y\<rfloor>; d = y - real_of_int f
      in if d < 1 / 2 then f
         else if 1 / 2 < d then f + 1
         else if even f then f else f + 1)"

definition toDouble :: "real \<Rightarrow> dbl" where
  "toDouble x =
     (if x = 0 then Fin 0
      else (let q = pow2 (max \<lfloor>log 2 \<bar>x\<bar>\<rfloor> (- 1022) - 52);
                y = real_of_int (roundToEven (x / q)) * q
            in if 2 ^ 1024 \<le> \<bar>y\<bar> then signed_inf (x < 0) else Fin y))"

definition dmul :: "dbl \<Rightarrow> dbl \<Rightarrow> dbl" where
  "dmul x y =
     (case (x, y) of
        (Fin a, Fin b) \<Rightarrow> toDouble (a * b)
      | _ \<Rightarrow> if x = NaN \<or> y = NaN \<or> is_zero x \<or> is_zero y then NaN
             else signed_inf (is_neg x \<noteq> is_neg y))"

definition ddiv :: "dbl \<Rightarrow> dbl \<Rightarrow> dbl" where
  "ddiv x y =
     (case (x, y) of
        (Fin a, Fin b) \<Rightarrow>
          if b = 0 then (if a = 0 then NaN else signed_inf (a < 0)) else toDouble (a / b)
      | _ \<Rightarrow> if x = NaN \<or> y = NaN \<or> (is_inf x \<and> is_inf y) then NaN
             else if is_inf y then Fin 0
             else signed_inf (is_neg x \<noteq> is_neg y))"

definition dadd :: "dbl \<Rightarrow> dbl \<Rightarrow> dbl" where
  "dadd x y =
     (case (x, y) of
        (Fin a, Fin b) \<Rightarrow> toDouble (a + b)
      | _ \<Rightarrow> if x = NaN \<or> y = NaN \<or> (x = PInf \<and> y = NInf) \<or> (x = NInf \<and> y = PInf)
             then NaN
             else if is_inf x then x else y)"

text \<open>Conversion of a double to \<^verbatim>\<open>int\<close> truncates towards zero.\<close>

definition toInt :: "real \<Rightarrow> int" where
  "toInt x = (if x < 0 then \<lceil>x\<rceil> else \<lfloor>x\<rfloor>)"

datatype error = NonFiniteToInt | IntOutOfRange | IntOverflow

definition inIntRange :: "int \<Rightarrow> bool" where
  "inIntRange n = (- (2 ^ 31) \<le> n \<and> n < 2 ^ 31)"

text \<open>Converting an infinity or a NaN to \<^verbatim>\<open>int\<close> is undefined behaviour in C++, and so is
  converting a double whose truncation does not fit the 32-bit \<^verbatim>\<open>int\<close>.\<close>

fun dblToInt :: "dbl \<Rightarrow> error + int" where
  "dblToInt (Fin a) = (if inIntRange (toInt a) then Inr (toInt a) else Inl IntOutOfRange)"
| "dblToInt _ = Inl NonFiniteToInt"

text \<open>Subtraction of two \<^verbatim>\<open>int\<close>s; signed overflow is undefined behaviour.\<close>

definition intSub :: "int \<Rightarrow> int \<Rightarrow> error + int" where
  "intSub a b = (if inIntRange (a - b) then Inr (a - b) else Inl IntOverflow)"

definition jmax :: "int \<Rightarrow> int \<Rightarrow> int" where
  "jmax a b = (if a < b then b else a)"

subsection \<open>Toolkit values\<close>

datatype colour = Black | Green | White | OtherColour nat

text \<open>What an image holds: a fill, the cursor line drawn by \<open>resized\<close>, or the waveform
  rendered by the thumbnail collaborator (tagged by a version number).\<close>

datatype pixels = Filled colour | CursorLine | Waveform nat

datatype image = NullImage | Image pixels int int

fun getWidth :: "image \<Rightarrow> int" where
  "getWidth NullImage = 0"
| "getWidth (Image p w h) = w"

fun getHeight :: "image \<Rightarrow> int" where
  "getHeight NullImage = 0"
| "getHeight (Image p w h) = h"

text \<open>The toolkit's \<^verbatim>\<open>Image::rescaled\<close>: a null image stays null, any other image
  gets exactly the requested size.\<close>

fun rescaled :: "image \<Rightarrow> int \<Rightarrow> int \<Rightarrow> image" where
  "rescaled NullImage w h = NullImage"
| "rescaled (Image p w0 h0) w h = Image p w h"

datatype mouseCursor = NormalCursor | IBeamCursor

datatype timerId = waveformUpdated | OtherTimer nat

text \<open>Modelled from the spec: the class template \<^verbatim>\<open>StateVariable\<close> of the member
  \<^verbatim>\<open>transportLineXCoord\<close> is declared outside the two source files. It is the
  double-buffered cursor position of the spec, a previous and a current pixel X;
  assigning shifts the current value into the previous one.\<close>

record stateVariable =
  previous :: int
  current :: int

definition assign :: "stateVariable \<Rightarrow> int \<Rightarrow> stateVariable" where
  "assign v x = \<lparr>previous = current v, current = x\<rparr>"

definition areEqual :: "stateVariable \<Rightarrow> bool" where
  "areEqual v = (previous v = current v)"

subsection \<open>Collaborators\<close>

text \<open>The playback engine: its reader source (a nullable pointer to a source whose reader
  is a nullable pointer again; the reader has a sample rate), the length and the current
  position.\<close>

record audioFilePlayer =
  readerSource :: "real option option"
  lengthInSeconds :: real
  currentPosition :: real

record audioThumbnailImage =
  hasFinishedLoading :: bool
  getImage :: image

text \<open>Thumbnail sources live in a store indexed by address, since \<open>imageChanged\<close>
  compares the address it is given with the address of the component's own source.\<close>

record env =
  thumbnails :: "nat \<Rightarrow> audioThumbnailImage"
  player :: audioFilePlayer

text \<open>Requests sent to the toolkit and to the collaborators, in the order of the calls.\<close>

datatype request =
    Repaint
  | RepaintRect int int int int
  | SetPosition dbl
  | SetMouseCursor mouseCursor
  | ThumbSetBackgroundColour colour
  | ThumbSetWaveformColour colour
  | AddListener nat

subsection \<open>The component\<close>

record display =
  width :: int
  height :: int
  currentSampleRate :: real
  fileLength :: real
  oneOverFileLength :: dbl
  zoomRatio :: real
  startOffsetRatio :: real
  verticalZoomRatio :: real
  audioThumbnailImage :: nat
  backgroundColour :: colour
  waveformColour :: colour
  cachedImage :: image
  cursorImage :: image
  transportLineXCoord :: stateVariable
  showTransportCursor :: bool
  currentXScale :: dbl
  currentMouseX :: int
  timer :: "int option"
  requests :: "request list"

text \<open>The constructor leaves \<^verbatim>\<open>fileLength\<close>, \<^verbatim>\<open>oneOverFileLength\<close>,
  \<^verbatim>\<open>currentXScale\<close> and \<^verbatim>\<open>currentMouseX\<close> uninitialised: their first values are
  parameters, and so is what a default-constructed \<^verbatim>\<open>StateVariable\<close> holds. A new
  component has empty bounds and no timer.\<close>

definition PositionableWaveDisplay ::
  "nat \<Rightarrow> real \<Rightarrow> dbl \<Rightarrow> dbl \<Rightarrow> int \<Rightarrow> stateVariable \<Rightarrow> display" where
  "PositionableWaveDisplay sourceToBeUsed len0 inv0 scale0 mouse0 coord0 =
     \<lparr>width = 0, height = 0,
      currentSampleRate = 44100,
      fileLength = len0,
      oneOverFileLength = inv0,
      zoomRatio = 1,
      startOffsetRatio = 0,
      verticalZoomRatio = 1,
      audioThumbnailImage = sourceToBeUsed,
      backgroundColour = Black,
      waveformColour = Green,
      cachedImage = Image (Filled Black) 1 1,
      cursorImage = NullImage,
      transportLineXCoord = coord0,
      showTransportCursor = True,
      currentXScale = scale0,
      currentMouseX = mouse0,
      timer = None,
      requests = [AddListener sourceToBeUsed]\<rparr>"

definition repaint :: "display \<Rightarrow> display" where
  "repaint s = s\<lparr>requests := requests s @ [Repaint]\<rparr>"

definition repaintRect :: "int \<Rightarrow> int \<Rightarrow> int \<Rightarrow> int \<Rightarrow> display \<Rightarrow> display" where
  "repaintRect x y w h s = s\<lparr>requests := requests s @ [RepaintRect x y w h]\<rparr>"

definition startTimer :: "int \<Rightarrow> display \<Rightarrow> display" where
  "startTimer interval s = s\<lparr>timer := Some interval\<rparr>"

definition stopTimer :: "display \<Rightarrow> display" where
  "stopTimer s = s\<lparr>timer := None\<rparr>"

definition setZoomRatio :: "real \<Rightarrow> display \<Rightarrow> display" where
  "setZoomRatio newZoomRatio s =
     repaint (s\<lparr>zoomRatio :=
        (if newZoomRatio < 0 \<or> newZoomRatio > 10000 then 1 else newZoomRatio)\<rparr>)"

definition setStartOffsetRatio :: "real \<Rightarrow> display \<Rightarrow> display" where
  "setStartOffsetRatio newStartOffsetRatio s =
     repaint (s\<lparr>startOffsetRatio := newStartOffsetRatio\<rparr>)"

definition setVerticalZoomRatio :: "real \<Rightarrow> display \<Rightarrow> display" where
  "setVerticalZoomRatio newVerticalZoomRatio s =
     repaint (s\<lparr>verticalZoomRatio := newVerticalZoomRatio\<rparr>)"

definition setCursorDisplayed :: "bool \<Rightarrow> display \<Rightarrow> display" where
  "setCursorDisplayed shoudldDisplayCursor s =
     (let s1 = s\<lparr>showTransportCursor := shoudldDisplayCursor\<rparr>
      in if showTransportCursor s1 then startTimer 40 s1 else stopTimer s1)"

definition setBackgroundColour :: "colour \<Rightarrow> display \<Rightarrow> display" where
  "setBackgroundColour newBackgroundColour s =
     repaint (s\<lparr>backgroundColour := newBackgroundColour,
                requests := requests s @ [ThumbSetBackgroundColour newBackgroundColour]\<rparr>)"

definition setWaveformColour :: "colour \<Rightarrow> display \<Rightarrow> display" where
  "setWaveformColour newWaveformColour s =
     repaint (s\<lparr>waveformColour := newWaveformColour,
                requests := requests s @ [ThumbSetWaveformColour newWaveformColour]\<rparr>)"

definition ownSource :: "env \<Rightarrow> display \<Rightarrow> audioThumbnailImage" where
  "ownSource e s = thumbnails e (audioThumbnailImage s)"

definition resized :: "env \<Rightarrow> display \<Rightarrow> display" where
  "resized e s =
     (let s1 = s\<lparr>cursorImage := Image CursorLine 3 (jmax 1 (height s))\<rparr>
      in if hasFinishedLoading (ownSource e s1)
         then s1\<lparr>cachedImage := rescaled (getImage (ownSource e s1)) (width s1) (height s1)\<rparr>
         else s1)"

text \<open>The toolkit changes the bounds and then calls \<open>resized\<close>.\<close>

definition setSize :: "int \<Rightarrow> int \<Rightarrow> env \<Rightarrow> display \<Rightarrow> display" where
  "setSize w h e s = resized e (s\<lparr>width := w, height := h\<rparr>)"


definition startPixelOf :: "display \<Rightarrow> int" where
  "startPixelOf s = toInt (real_of_int (width s) * startOffsetRatio s)"


text \<open>The tick's \<^verbatim>\<open>const int startPixel = w * startOffsetRatio\<close>: a product of doubles,
  converted to \<^verbatim>\<open>int\<close>.\<close>

definition startPixel :: "display \<Rightarrow> error + int" where
  "startPixel s = dblToInt (dmul (Fin (real_of_int (width s))) (Fin (startOffsetRatio s)))"

text \<open>The right-hand side of the assignment to \<^verbatim>\<open>transportLineXCoord\<close>, as a double:
  \<^verbatim>\<open>startPixel + ((w * oneOverFileLength * position) / zoomRatio)\<close>, each operation
  rounded.\<close>

definition cursorCoord :: "int \<Rightarrow> env \<Rightarrow> display \<Rightarrow> dbl" where
  "cursorCoord sp e s =
     dadd (Fin (real_of_int sp))
          (ddiv (dmul (dmul (Fin (real_of_int (width s))) (oneOverFileLength s))
                      (Fin (currentPosition (player e))))
                (Fin (zoomRatio s)))"

definition timerCallback :: "timerId \<Rightarrow> env \<Rightarrow> display \<Rightarrow> error + display" where
  "timerCallback timerId e s =
     (if timerId = waveformUpdated then
        (case startPixel s of
           Inl err \<Rightarrow> Inl err
         | Inr sp \<Rightarrow>
        (case dblToInt (cursorCoord sp e s) of
           Inl err \<Rightarrow> Inl err
         | Inr x \<Rightarrow>
             (let s1 = s\<lparr>transportLineXCoord := assign (transportLineXCoord s) x\<rparr>;
                  h = height s1
              in if \<not> areEqual (transportLineXCoord s1)
                 then (case intSub (previous (transportLineXCoord s1)) 2 of
                         Inl err \<Rightarrow> Inl err
                       | Inr x0 \<Rightarrow>
                      (case intSub (current (transportLineXCoord s1)) 2 of
                         Inl err \<Rightarrow> Inl err
                       | Inr x1 \<Rightarrow>
                           Inr (repaintRect x1 0 5 h (repaintRect x0 0 5 h s1))))
                 else Inr s1)))
      else Inr s)"

definition getAudioFormatReader :: "audioFilePlayer \<Rightarrow> real option" where
  "getAudioFormatReader p =
     (case readerSource p of None \<Rightarrow> None | Some src \<Rightarrow> src)"

definition validReader :: "audioFilePlayer \<Rightarrow> bool" where
  "validReader p = (case getAudioFormatReader p of None \<Rightarrow> False | Some rate \<Rightarrow> rate > 0)"

definition imageChanged :: "nat \<Rightarrow> env \<Rightarrow> display \<Rightarrow> display" where
  "imageChanged changedAudioThumbnailImage e s =
     (if changedAudioThumbnailImage = audioThumbnailImage s then
        (let s1 = s\<lparr>cachedImage := NullImage\<rparr>
         in case getAudioFormatReader (player e) of
              Some rate \<Rightarrow>
                if rate > 0 then
                  (let s2 = s1\<lparr>currentSampleRate := rate,
                               fileLength := lengthInSeconds (player e)\<rparr>;
                       s3 = s2\<lparr>oneOverFileLength := ddiv (Fin 1) (Fin (fileLength s2))\<rparr>
                   in if showTransportCursor s3 then startTimer 40 s3 else s3)
                else
                  (let s2 = s1\<lparr>currentSampleRate := 44100, fileLength := 0\<rparr>
                   in s2\<lparr>oneOverFileLength := ddiv (Fin 1) (Fin (fileLength s2))\<rparr>)
            | None \<Rightarrow>
                (let s2 = s1\<lparr>currentSampleRate := 44100, fileLength := 0\<rparr>
                 in s2\<lparr>oneOverFileLength := ddiv (Fin 1) (Fin (fileLength s2))\<rparr>))
      else s)"

definition imageUpdated :: "nat \<Rightarrow> env \<Rightarrow> display \<Rightarrow> display" where
  "imageUpdated changedAudioThumbnailImage e s =
     repaint (s\<lparr>cachedImage := getImage (ownSource e s)\<rparr>)"

definition imageFinished :: "nat \<Rightarrow> env \<Rightarrow> display \<Rightarrow> display" where
  "imageFinished changedAudioThumbnailImage e s = resized e s"

text \<open>The position that \<open>mouseDown\<close> and \<open>mouseDrag\<close> hand to the playback engine.\<close>

definition seekPosition :: "display \<Rightarrow> dbl" where
  "seekPosition s =
     dmul (currentXScale s) (Fin (real_of_int (currentMouseX s - startPixelOf s)))"

definition mouseDown :: "int \<Rightarrow> display \<Rightarrow> display" where
  "mouseDown x s =
     (if showTransportCursor s then
        (let s1 = s\<lparr>requests := requests s @ [SetMouseCursor IBeamCursor],
                     currentMouseX := x\<rparr>;
             s2 = s1\<lparr>currentXScale :=
                       dmul (ddiv (Fin (fileLength s1)) (Fin (real_of_int (width s1))))
                            (Fin (zoomRatio s1))\<rparr>
         in repaint (s2\<lparr>requests := requests s2 @ [SetPosition (seekPosition s2)]\<rparr>))
      else s)"

definition mouseUp :: "display \<Rightarrow> display" where
  "mouseUp s =
     (if showTransportCursor s
      then s\<lparr>requests := requests s @ [SetMouseCursor NormalCursor]\<rparr>
      else s)"

definition mouseDrag :: "int \<Rightarrow> display \<Rightarrow> display" where
  "mouseDrag x s =
     (if showTransportCursor s then
        (let s1 = s\<lparr>currentMouseX := x\<rparr>
         in s1\<lparr>requests := requests s1 @ [SetPosition (seekPosition s1)]\<rparr>)
      else s)"

subsection \<open>Sequences of calls\<close>

datatype event =
    SetZoomRatio real
  | SetStartOffsetRatio real
  | SetVerticalZoomRatio real
  | SetCursorDisplayed bool
  | SetBackgroundColour colour
  | SetWaveformColour colour
  | SetSize int int
  | TimerCallback timerId
  | ImageChanged nat
  | ImageUpdated nat
  | ImageFinished nat
  | MouseDown int
  | MouseUp
  | MouseDrag int

fun step :: "env \<Rightarrow> event \<Rightarrow> display \<Rightarrow> error + display" where
  "step e (SetZoomRatio z) s = Inr (setZoomRatio z s)"
| "step e (SetStartOffsetRatio r) s = Inr (setStartOffsetRatio r s)"
| "step e (SetVerticalZoomRatio r) s = Inr (setVerticalZoomRatio r s)"
| "step e (SetCursorDisplayed b) s = Inr (setCursorDisplayed b s)"
| "step e (SetBackgroundColour c) s = Inr (setBackgroundColour c s)"
| "step e (SetWaveformColour c) s = Inr (setWaveformColour c s)"
| "step e (SetSize w h) s = Inr (setSize w h e s)"
| "step e (TimerCallback i) s = timerCallback i e s"
| "step e (ImageChanged a) s = Inr (imageChanged a e s)"
| "step e (ImageUpdated a) s = Inr (imageUpdated a e s)"
| "step e (ImageFinished a) s = Inr (imageFinished a e s)"
| "step e (MouseDown x) s = Inr (mouseDown x s)"
| "step e MouseUp s = Inr (mouseUp s)"
| "step e (MouseDrag x) s = Inr (mouseDrag x s)"

text \<open>Each call sees the collaborators as they are at that moment; a call that fails ends
  the run.\<close>

fun run :: "(env \<times> event) list \<Rightarrow> display \<Rightarrow> error + display" where
  "run [] s = Inr s"
| "run ((e, ev) # rest) s =
     (case step e ev s of Inl err \<Rightarrow> Inl err | Inr s1 \<Rightarrow> run rest s1)"

subsection \<open>Observations\<close>



text \<open>The positions handed to the playback engine, oldest first.\<close>

fun seeksOf :: "request list \<Rightarrow> dbl list" where
  "seeksOf [] = []"
| "seeksOf (SetPosition p # rs) = p # seeksOf rs"
| "seeksOf (r # rs) = seeksOf rs"

text \<open>The cursor pixel X that a poller tick stores.\<close>

definition tickPixel :: "env \<Rightarrow> display \<Rightarrow> error + int" where
  "tickPixel e s =
     (case timerCallback waveformUpdated e s of
        Inl err \<Rightarrow> Inl err
      | Inr s1 \<Rightarrow> Inr (current (transportLineXCoord s1)))"

text \<open>The requests a call has added.\<close>

definition newRequests :: "display \<Rightarrow> display \<Rightarrow> request list" where
  "newRequests s s1 = drop (length (requests s)) (requests s1)"

subsection \<open>A loaded file and an unloaded one\<close>

text \<open>A playback engine with a 100 second file at 44100 Hz, playing at \<open>pos\<close>, and a
  thumbnail source that has finished loading a 1600 by 400 waveform.\<close>

definition loadedEnv :: "real \<Rightarrow> env" where
  "loadedEnv pos =
     \<lparr>thumbnails = (\<lambda>a. \<lparr>hasFinishedLoading = True, getImage = Image (Waveform a) 1600 400\<rparr>),
      player = \<lparr>readerSource = Some (Some 44100), lengthInSeconds = 100,
                currentPosition = pos\<rparr>\<rparr>"

text \<open>The same engine after the file has been unloaded: no reader source.\<close>

definition unloadedEnv :: env where
  "unloadedEnv =
     \<lparr>thumbnails = (\<lambda>a. \<lparr>hasFinishedLoading = False, getImage = NullImage\<rparr>),
      player = \<lparr>readerSource = None, lengthInSeconds = 0, currentPosition = 0\<rparr>\<rparr>"

definition newDisplay :: display where
  "newDisplay =
     PositionableWaveDisplay 0 0 (Fin 0) (Fin 0) 0 \<lparr>previous = 0, current = 0\<rparr>"

text \<open>An 800 by 200 component on the loaded file, with zoom ratio \<open>z\<close>.\<close>

definition loadedDisplay :: "real \<Rightarrow> display" where
  "loadedDisplay z =
     setZoomRatio z
       (imageFinished 0 (loadedEnv 0)
         (imageChanged 0 (loadedEnv 0)
           (setSize 800 200 (loadedEnv 0) newDisplay)))"

subsection \<open>The poller's invariant\<close>

text \<open>The timer is either stopped, or it runs every 40 ms and the cursor is displayed.\<close>

definition pollerInv :: "display \<Rightarrow> bool" where
  "pollerInv s = (timer s = None \<or> (timer s = Some 40 \<and> showTransportCursor s))"

section \<open>Properties\<close>

lemmas fixture_defs = PositionableWaveDisplay_def newDisplay_def loadedDisplay_def
  loadedEnv_def unloadedEnv_def

lemmas op_defs = setZoomRatio_def setSize_def resized_def imageChanged_def imageFinished_def
  imageUpdated_def setCursorDisplayed_def setStartOffsetRatio_def setVerticalZoomRatio_def
  setBackgroundColour_def setWaveformColour_def mouseDown_def mouseUp_def mouseDrag_def
  repaint_def repaintRect_def startTimer_def stopTimer_def ownSource_def
  getAudioFormatReader_def jmax_def

lemmas dbl_defs = ddiv_def dmul_def dadd_def signed_inf_def toInt_def

subsection \<open>Evaluating the arithmetic\<close>

text \<open>A real that lies within half a unit in the last place of a binary64 number rounds
  to that number; the lemmas after it round the numbers of the scenarios.\<close>

lemma pow2_powr: "pow2 k = 2 powr (real_of_int k)"
  by (simp add: pow2_def powr_int)

lemma roundToEven_near:
  assumes "\<bar>y - real_of_int m\<bar> < 1 / 2"
  shows "roundToEven y = m"
proof (cases "real_of_int m \<le> y")
  case True
  with assms have f: "\<lfloor>y\<rfloor> = m" by linarith
  with assms True show ?thesis by (simp add: roundToEven_def Let_def)
next
  case False
  with assms have f: "\<lfloor>y\<rfloor> = m - 1" by linarith
  with assms False show ?thesis by (simp add: roundToEven_def Let_def)
qed

lemma toDouble_eval:
  assumes lo: "pow2 k \<le> \<bar>x\<bar>" and hi: "\<bar>x\<bar> < pow2 (k + 1)" and k: "- 1022 \<le> k"
    and m: "\<bar>x / pow2 (k - 52) - real_of_int m\<bar> < 1 / 2"
    and fin: "\<bar>real_of_int m * pow2 (k - 52)\<bar> < 2 ^ 1024"
  shows "toDouble x = Fin (real_of_int m * pow2 (k - 52))"
proof -
  have p: "0 < pow2 k" by (simp add: pow2_def)
  with lo have x: "0 < \<bar>x\<bar>" by linarith
  have "\<lfloor>log 2 \<bar>x\<bar>\<rfloor> = k"
    using lo hi x by (simp add: floor_log_eq_powr_iff pow2_powr)
  with k have e: "max \<lfloor>log 2 \<bar>x\<bar>\<rfloor> (- 1022) = k" by simp
  from x have nz: "x \<noteq> 0" by auto
  show ?thesis
    using fin nz by (simp add: toDouble_def e Let_def roundToEven_near [OF m])
qed

lemma toDouble_0: "toDouble 0 = Fin 0"
  by (simp add: toDouble_def)

lemma toDouble_hundredth: "toDouble (1 / 100) = Fin (5764607523034235 / 576460752303423488)"
  using toDouble_eval [of "-7" "1/100" 5764607523034235]
  by (simp add: pow2_def)

lemma toDouble_8: "toDouble (144115188075855875 / 18014398509481984) = Fin 8"
  using toDouble_eval [of 3 "144115188075855875 / 18014398509481984" "2 ^ 52"]
  by (simp add: pow2_def)

lemma toDouble_400: "toDouble 400 = Fin 400"
  using toDouble_eval [of 8 400 "400 * 2 ^ 44"]
  by (simp add: pow2_def)

lemma toDouble_200: "toDouble 200 = Fin 200"
  using toDouble_eval [of 7 200 "200 * 2 ^ 45"]
  by (simp add: pow2_def)

lemma toDouble_50: "toDouble 50 = Fin 50"
  using toDouble_eval [of 5 50 "50 * 2 ^ 47"]
  by (simp add: pow2_def)

lemma toDouble_eighth: "toDouble (1 / 8) = Fin (1 / 8)"
  using toDouble_eval [of "-3" "1/8" "2 ^ 52"]
  by (simp add: pow2_def)

lemma toDouble_big: "toDouble 429496729600 = Fin 429496729600"
  using toDouble_eval [of 38 429496729600 "429496729600 * 2 ^ 14"]
  by (simp add: pow2_def)

lemmas roundings = toDouble_0 toDouble_hundredth toDouble_8 toDouble_400 toDouble_200
  toDouble_50 toDouble_eighth toDouble_big

lemma dmul_Fin: "dmul (Fin a) (Fin b) = toDouble (a * b)"
  by (simp add: dmul_def)

lemma ddiv_Fin: "b \<noteq> 0 \<Longrightarrow> ddiv (Fin a) (Fin b) = toDouble (a / b)"
  by (simp add: ddiv_def)

lemma dadd_Fin: "dadd (Fin a) (Fin b) = toDouble (a + b)"
  by (simp add: dadd_def)

lemmas fin_ops = dmul_Fin ddiv_Fin dadd_Fin

lemma ddiv_one_zero: "ddiv (Fin 1) (Fin 0) = PInf"
  by (simp add: ddiv_def signed_inf_def)

lemma nonfinite_ops:
  "dmul (Fin a) PInf = (if a = 0 then NaN else if a < 0 then NInf else PInf)"
  "dmul PInf (Fin a) = (if a = 0 then NaN else if a < 0 then NInf else PInf)"
  "dmul NaN y = NaN" "ddiv NaN y = NaN" "dadd x NaN = NaN"
  by (simp_all add: dmul_def ddiv_def dadd_def signed_inf_def split: dbl.splits)

subsection \<open>The scenarios\<close>

lemma loaded_fields:
  "width (loadedDisplay z) = 800" "height (loadedDisplay z) = 200"
  "fileLength (loadedDisplay z) = 100"
  "oneOverFileLength (loadedDisplay z) = Fin (5764607523034235 / 576460752303423488)"
  "startOffsetRatio (loadedDisplay z) = 0"
  "zoomRatio (loadedDisplay z) = (if z < 0 \<or> 10000 < z then 1 else z)"
  "showTransportCursor (loadedDisplay z)"
  "timer (loadedDisplay z) = Some 40"
  "transportLineXCoord (loadedDisplay z) = \<lparr>previous = 0, current = 0\<rparr>"
  "audioThumbnailImage (loadedDisplay z) = 0"
  "cachedImage (loadedDisplay z) = Image (Waveform 0) 800 200"
  by (simp_all add: fixture_defs op_defs ddiv_Fin toDouble_hundredth Let_def)

lemma loaded_startPixel: "startPixel (loadedDisplay z) = Inr 0"
  by (simp add: startPixel_def loaded_fields fin_ops roundings toInt_def inIntRange_def)

lemma loaded_cursorCoord_1: "cursorCoord 0 (loadedEnv 50) (loadedDisplay 1) = Fin 400"
  by (simp add: cursorCoord_def loaded_fields loadedEnv_def fin_ops roundings)

lemma loaded_cursorCoord_2: "cursorCoord 0 (loadedEnv 50) (loadedDisplay 2) = Fin 200"
  by (simp add: cursorCoord_def loaded_fields loadedEnv_def fin_ops roundings)

lemma loaded_cursorCoord_tiny:
  "cursorCoord 0 (loadedEnv 50) (loadedDisplay (1 / 1073741824)) = Fin 429496729600"
  by (simp add: cursorCoord_def loaded_fields loadedEnv_def fin_ops roundings)

lemma unloaded_fields:
  "width (imageChanged 0 unloadedEnv (loadedDisplay z)) = 800"
  "startOffsetRatio (imageChanged 0 unloadedEnv (loadedDisplay z)) = 0"
  "oneOverFileLength (imageChanged 0 unloadedEnv (loadedDisplay z)) = PInf"
  "fileLength (imageChanged 0 unloadedEnv (loadedDisplay z)) = 0"
  "currentSampleRate (imageChanged 0 unloadedEnv (loadedDisplay z)) = 44100"
  "cachedImage (imageChanged 0 unloadedEnv (loadedDisplay z)) = NullImage"
  "timer (imageChanged 0 unloadedEnv (loadedDisplay z)) = Some 40"
  by (simp_all add: imageChanged_def getAudioFormatReader_def unloadedEnv_def loaded_fields
      ddiv_one_zero Let_def)

subsection \<open>The zoom ratio setter\<close>

lemma setZoomRatio_stored:
  "zoomRatio (setZoomRatio z s) = (if z < 0 \<or> 10000 < z then 1 else z)"
  by (simp add: setZoomRatio_def repaint_def)

lemma setZoomRatio_requests:
  "requests (setZoomRatio z s) = requests s @ [Repaint]"
  by (simp add: setZoomRatio_def repaint_def)

text \<open>
  Claim C2. The setter is said to store every \<open>z\<close> in \<open>(0, 10000]\<close> and to store 1.0 for
  every \<open>z \<le> 0\<close> and every \<open>z > 10000\<close>. The guard of the code is
  \<^verbatim>\<open>newZoomRatio < 0.0 || newZoomRatio > 10000.0\<close>, under the comment
  \<^verbatim>\<open>zoom ratio has to be > 0 && < 10000\<close>: a zoom ratio of exactly 0 passes the guard
  and is stored as it is.
\<close>

theorem setZoomRatio_zero_is_stored:
  "zoomRatio (setZoomRatio 0 s) = 0 \<and> zoomRatio (setZoomRatio 0 s) \<noteq> 1"
  by (simp add: setZoomRatio_def repaint_def)

subsection \<open>Painting\<close>



subsection \<open>The poller tick\<close>

lemma timerCallback_frame:
  assumes "timerCallback i e s = Inr s1"
  shows "width s1 = width s" "height s1 = height s" "fileLength s1 = fileLength s"
    "zoomRatio s1 = zoomRatio s" "startOffsetRatio s1 = startOffsetRatio s"
    "showTransportCursor s1 = showTransportCursor s" "timer s1 = timer s"
  using assms
  by (auto simp: timerCallback_def repaintRect_def Let_def split: if_splits sum.splits)

text \<open>
  Claim C6, as stated: every poller tick either requests nothing or requests the two
  rectangles. At the zoom ratio \<open>1 / 2 ^ 30\<close>, which the setter stores, the coordinate
  of position 50 s on the 800 pixel wide view is 429496729600. No \<^verbatim>\<open>int\<close> holds it:
  the conversion is undefined, and the tick has no pixel to store or to compare.
\<close>

theorem tick_out_of_range_counterexample:
  "zoomRatio (loadedDisplay (1 / 1073741824)) = 1 / 1073741824 \<and>
   timer (loadedDisplay (1 / 1073741824)) = Some 40 \<and>
   cursorCoord 0 (loadedEnv 50) (loadedDisplay (1 / 1073741824)) = Fin 429496729600 \<and>
   timerCallback waveformUpdated (loadedEnv 50) (loadedDisplay (1 / 1073741824)) = Inl IntOutOfRange"
  by (simp add: timerCallback_def loaded_startPixel loaded_cursorCoord_tiny loaded_fields
      toInt_def inIntRange_def)

text \<open>
  Claim C6, amended: take a tick whose start pixel and whose cursor coordinate \<open>x\<close> are
  finite and convert to \<^verbatim>\<open>int\<close>, and for which, if the pixel moves, the left edges of the
  two rectangles do not overflow. It stores the pixel \<open>toInt x\<close> and keeps the pixel
  stored before as the previous one. If the two are equal the tick requests nothing;
  otherwise it requests exactly two rectangles, 5 pixels wide and as high as the
  viewport, starting 2 pixels left of the old and of the new pixel. No full repaint is
  among the requests.
\<close>

theorem timerCallback_redraws:
  assumes sp: "startPixel s = Inr sp"
    and c: "cursorCoord sp e s = Fin x"
    and r: "inIntRange (toInt x)"
    and o: "toInt x \<noteq> current (transportLineXCoord s) \<Longrightarrow>
            inIntRange (current (transportLineXCoord s) - 2) \<and> inIntRange (toInt x - 2)"
  shows "\<exists>s1. timerCallback waveformUpdated e s = Inr s1 \<and>
           previous (transportLineXCoord s1) = current (transportLineXCoord s) \<and>
           current (transportLineXCoord s1) = toInt x \<and>
           newRequests s s1 =
             (if toInt x = current (transportLineXCoord s) then []
              else [RepaintRect (current (transportLineXCoord s) - 2) 0 5 (height s),
                    RepaintRect (toInt x - 2) 0 5 (height s)])"
proof (cases "toInt x = current (transportLineXCoord s)")
  case True
  with sp c r show ?thesis
    by (simp add: timerCallback_def assign_def areEqual_def newRequests_def Let_def)
next
  case False
  with o have "inIntRange (current (transportLineXCoord s) - 2)" "inIntRange (toInt x - 2)"
    by simp_all
  with False sp c r show ?thesis
    by (simp add: timerCallback_def assign_def areEqual_def intSub_def repaintRect_def
        newRequests_def Let_def)
qed

theorem timerCallback_redraws_witness:
  "startPixel (loadedDisplay 1) = Inr 0 \<and>
   cursorCoord 0 (loadedEnv 50) (loadedDisplay 1) = Fin 400 \<and>
   inIntRange (toInt 400) \<and>
   inIntRange (current (transportLineXCoord (loadedDisplay 1)) - 2) \<and>
   inIntRange (toInt 400 - 2) \<and>
   (\<exists>s1. timerCallback waveformUpdated (loadedEnv 50) (loadedDisplay 1) = Inr s1 \<and>
      previous (transportLineXCoord s1) = 0 \<and>
      current (transportLineXCoord s1) = 400 \<and>
      newRequests (loadedDisplay 1) s1 = [RepaintRect (- 2) 0 5 200, RepaintRect 398 0 5 200])"
proof -
  have t: "toInt 400 = 400" by (simp add: toInt_def)
  have r: "inIntRange (toInt 400)" by (simp add: t inIntRange_def)
  have o: "inIntRange (current (transportLineXCoord (loadedDisplay 1)) - 2) \<and>
      inIntRange (toInt 400 - 2)"
    by (simp add: t loaded_fields inIntRange_def)
  from timerCallback_redraws [OF loaded_startPixel loaded_cursorCoord_1 r o]
  show ?thesis
    using loaded_startPixel [of 1] loaded_cursorCoord_1 r o by (simp add: t loaded_fields)
qed

subsection \<open>When the poller runs\<close>

lemma step_pollerInv: "pollerInv s \<Longrightarrow> step e ev s = Inr s1 \<Longrightarrow> pollerInv s1"
proof (cases ev)
  case (TimerCallback i)
  assume "pollerInv s" "step e ev s = Inr s1"
  with TimerCallback timerCallback_frame [of i e s s1] show ?thesis
    by (simp add: pollerInv_def)
next
  case (ImageChanged a)
  assume "pollerInv s" "step e ev s = Inr s1"
  with ImageChanged show ?thesis
    by (auto simp: pollerInv_def imageChanged_def startTimer_def Let_def
        split: option.splits if_splits)
qed (auto simp: pollerInv_def op_defs Let_def split: if_splits)

lemma run_pollerInv: "pollerInv s \<Longrightarrow> run evs s = Inr s1 \<Longrightarrow> pollerInv s1"
proof (induction evs arbitrary: s)
  case Nil
  then show ?case by simp
next
  case (Cons p evs)
  obtain e ev where p: "p = (e, ev)" by (cases p)
  from Cons.prems(2) p obtain s2 where s2: "step e ev s = Inr s2" "run evs s2 = Inr s1"
    by (auto split: sum.splits)
  from step_pollerInv [OF Cons.prems(1) s2(1)] Cons.IH s2(2) show ?case by blast
qed

text \<open>
  Claim C1, as stated: the timer runs only if the cursor is displayed and the file length is
  positive. After an image-changed notification with no reader (file length 0), a call of
  \<open>setCursorDisplayed True\<close> starts the timer all the same.
\<close>

theorem poller_running_counterexample:
  "\<exists>s1. run [(unloadedEnv, ImageChanged 0), (unloadedEnv, SetCursorDisplayed True)] newDisplay
          = Inr s1
      \<and> timer s1 = Some 40 \<and> fileLength s1 = 0"
  by (simp add: fixture_defs op_defs ddiv_one_zero Let_def)

text \<open>
  Claim C1, amended: after every sequence of calls on a new component, the timer runs only
  if the cursor is displayed, and then with the interval 40; \<open>setCursorDisplayed True\<close>
  starts it, whatever the file length, and \<open>setCursorDisplayed False\<close> stops it.
\<close>

theorem poller_only_with_cursor:
  assumes "run evs (PositionableWaveDisplay a len0 inv0 scale0 mouse0 coord0) = Inr s"
  shows "(timer s \<noteq> None \<longrightarrow> timer s = Some 40 \<and> showTransportCursor s) \<and>
         timer (setCursorDisplayed True s) = Some 40 \<and>
         timer (setCursorDisplayed False s) = None"
proof -
  have "pollerInv (PositionableWaveDisplay a len0 inv0 scale0 mouse0 coord0)"
    by (simp add: pollerInv_def PositionableWaveDisplay_def)
  from run_pollerInv [OF this assms] show ?thesis
    by (auto simp: pollerInv_def setCursorDisplayed_def startTimer_def stopTimer_def Let_def)
qed

theorem poller_only_with_cursor_witness:
  "\<exists>s. run [(loadedEnv 0, ImageChanged 0), (loadedEnv 0, SetCursorDisplayed False)]
            (PositionableWaveDisplay 0 0 (Fin 0) (Fin 0) 0 \<lparr>previous = 7, current = 7\<rparr>) = Inr s \<and>
       (timer s \<noteq> None \<longrightarrow> timer s = Some 40 \<and> showTransportCursor s) \<and>
       timer (setCursorDisplayed True s) = Some 40 \<and>
       timer (setCursorDisplayed False s) = None"
proof -
  have "\<exists>s. run [(loadedEnv 0, ImageChanged 0), (loadedEnv 0, SetCursorDisplayed False)]
            (PositionableWaveDisplay 0 0 (Fin 0) (Fin 0) 0 \<lparr>previous = 7, current = 7\<rparr>) = Inr s"
    by simp
  then obtain s
    where s: "run [(loadedEnv 0, ImageChanged 0), (loadedEnv 0, SetCursorDisplayed False)]
            (PositionableWaveDisplay 0 0 (Fin 0) (Fin 0) 0 \<lparr>previous = 7, current = 7\<rparr>) = Inr s" ..
  from poller_only_with_cursor [OF s] s show ?thesis by blast
qed

subsection \<open>The image-changed notification without a reader\<close>

text \<open>
  Claim C4. The component is said never to divide by zero, and in particular neither to
  compute the reciprocal of a zero file length nor to use it in the poller. When the file
  is unloaded while the poller runs, \<open>imageChanged\<close> sets the file length to 0 and stores
  \<open>1.0 / 0.0\<close>, an infinity, as its reciprocal; the timer keeps running, and the next tick
  multiplies by that infinity and converts the result to an integer.
\<close>

theorem imageChanged_divides_by_zero:
  "oneOverFileLength (imageChanged 0 unloadedEnv (loadedDisplay 1)) = PInf \<and>
   fileLength (imageChanged 0 unloadedEnv (loadedDisplay 1)) = 0 \<and>
   timer (imageChanged 0 unloadedEnv (loadedDisplay 1)) = Some 40 \<and>
   timerCallback waveformUpdated unloadedEnv (imageChanged 0 unloadedEnv (loadedDisplay 1))
     = Inl NonFiniteToInt"
proof -
  have sp: "startPixel (imageChanged 0 unloadedEnv (loadedDisplay 1)) = Inr 0"
    by (simp add: startPixel_def unloaded_fields fin_ops roundings toInt_def inIntRange_def)
  have p: "currentPosition (player unloadedEnv) = 0" by (simp add: unloadedEnv_def)
  have c: "cursorCoord 0 unloadedEnv (imageChanged 0 unloadedEnv (loadedDisplay 1)) = NaN"
    by (simp add: cursorCoord_def unloaded_fields p nonfinite_ops)
  show ?thesis
    by (simp add: unloaded_fields timerCallback_def sp c)
qed

text \<open>
  Claim C5, as stated: without a valid reader the notification resets the sample rate and
  the file length, invalidates the cached image and stops the poller. The poller that was
  running on the loaded file is still running afterwards.
\<close>

theorem imageChanged_no_reader_counterexample:
  "timer (loadedDisplay 1) = Some 40 \<and>
   \<not> validReader (player unloadedEnv) \<and>
   timer (imageChanged 0 unloadedEnv (loadedDisplay 1)) = Some 40"
proof -
  have "\<not> validReader (player unloadedEnv)"
    by (simp add: validReader_def getAudioFormatReader_def unloadedEnv_def)
  then show ?thesis by (simp add: loaded_fields unloaded_fields)
qed

text \<open>
  Claim C5, amended: when the notification comes from the component's own source and the
  playback engine has no reader, or a reader whose sample rate is not positive, the sample
  rate becomes 44100, the file length becomes 0, the cached image becomes the null image,
  and the timer is left as it was.
\<close>

theorem imageChanged_no_reader:
  assumes "a = audioThumbnailImage s" and "\<not> validReader (player e)"
  shows "currentSampleRate (imageChanged a e s) = 44100 \<and>
         fileLength (imageChanged a e s) = 0 \<and>
         cachedImage (imageChanged a e s) = NullImage \<and>
         timer (imageChanged a e s) = timer s"
  using assms
  by (auto simp: imageChanged_def validReader_def Let_def split: option.splits)

theorem imageChanged_no_reader_witness:
  "(0::nat) = audioThumbnailImage (loadedDisplay 1) \<and> \<not> validReader (player unloadedEnv) \<and>
   currentSampleRate (imageChanged 0 unloadedEnv (loadedDisplay 1)) = 44100 \<and>
   fileLength (imageChanged 0 unloadedEnv (loadedDisplay 1)) = 0 \<and>
   cachedImage (imageChanged 0 unloadedEnv (loadedDisplay 1)) = NullImage \<and>
   timer (imageChanged 0 unloadedEnv (loadedDisplay 1)) = timer (loadedDisplay 1)"
proof -
  have a: "(0::nat) = audioThumbnailImage (loadedDisplay 1)"
    by (simp add: loaded_fields)
  have v: "\<not> validReader (player unloadedEnv)"
    by (simp add: validReader_def getAudioFormatReader_def unloadedEnv_def)
  from imageChanged_no_reader [OF a v] a v show ?thesis by blast
qed

subsection \<open>The scenario of the spec\<close>

lemma scenario_parameters:
  "width (loadedDisplay 1) = 800 \<and> height (loadedDisplay 1) = 200 \<and>
   fileLength (loadedDisplay 1) = 100 \<and> startOffsetRatio (loadedDisplay 1) = 0 \<and>
   zoomRatio (loadedDisplay 1) = 1 \<and>
   width (loadedDisplay 2) = 800 \<and> height (loadedDisplay 2) = 200 \<and>
   fileLength (loadedDisplay 2) = 100 \<and> startOffsetRatio (loadedDisplay 2) = 0 \<and>
   zoomRatio (loadedDisplay 2) = 2 \<and>
   currentPosition (player (loadedEnv 50)) = 50"
  by (simp add: loaded_fields loadedEnv_def)

text \<open>
  Claim C9. On the 800 by 200 view of the 100 second file, with start offset ratio 0 and
  the playback position at 50 s, a tick stores the cursor pixel 400 at zoom ratio 1 and
  200 at zoom ratio 2; at zoom ratio 1 a press on pixel 400 seeks to 50 s.
\<close>

theorem scenario_cursor_and_seek:
  "tickPixel (loadedEnv 50) (loadedDisplay 1) = Inr 400 \<and>
   tickPixel (loadedEnv 50) (loadedDisplay 2) = Inr 200 \<and>
   seeksOf (newRequests (loadedDisplay 1) (mouseDown 400 (loadedDisplay 1))) = [Fin 50]"
proof -
  have t: "toInt 400 = 400" "toInt 200 = 200" by (simp_all add: toInt_def)
  have p1: "tickPixel (loadedEnv 50) (loadedDisplay 1) = Inr 400"
    by (simp add: tickPixel_def timerCallback_def loaded_startPixel loaded_cursorCoord_1
        loaded_fields t inIntRange_def intSub_def assign_def areEqual_def repaintRect_def
        Let_def)
  have p2: "tickPixel (loadedEnv 50) (loadedDisplay 2) = Inr 200"
    by (simp add: tickPixel_def timerCallback_def loaded_startPixel loaded_cursorCoord_2
        loaded_fields t inIntRange_def intSub_def assign_def areEqual_def repaintRect_def
        Let_def)
  have m: "seeksOf (newRequests (loadedDisplay 1) (mouseDown 400 (loadedDisplay 1))) = [Fin 50]"
    by (simp add: mouseDown_def seekPosition_def startPixelOf_def repaint_def newRequests_def
        loaded_fields fin_ops roundings toInt_def Let_def)
  from p1 p2 m show ?thesis by simp
qed

subsection \<open>Resizing\<close>

text \<open>
  Claim C8, as stated: after a resize the cursor image is as high as the viewport, the
  cached image has the viewport's size, and a zero width or height is replaced by 1 in each
  axis. On an empty viewport the cursor image is 1 pixel high, and the cached image is
  asked for at 0 by 0: only the cursor's height has a minimum.
\<close>

theorem resized_zero_counterexample:
  "height (setSize 0 0 (loadedEnv 0) newDisplay) = 0 \<and>
   getHeight (cursorImage (setSize 0 0 (loadedEnv 0) newDisplay)) = 1 \<and>
   hasFinishedLoading (ownSource (loadedEnv 0) newDisplay) \<and>
   getWidth (cachedImage (setSize 0 0 (loadedEnv 0) newDisplay)) = 0 \<and>
   getHeight (cachedImage (setSize 0 0 (loadedEnv 0) newDisplay)) = 0"
  by (simp add: fixture_defs op_defs Let_def)

text \<open>
  Claim C8, amended: after every resize to \<open>w\<close> by \<open>h\<close> the cursor image is 3 wide and
  \<open>max 1 h\<close> high; if the source has finished loading and its image is not null, the
  cached image is \<open>w\<close> by \<open>h\<close>; if the source has not finished loading, the cached image
  is the one from before.
\<close>

theorem resized_images:
  "getWidth (cursorImage (setSize w h e s)) = 3 \<and>
   getHeight (cursorImage (setSize w h e s)) = max 1 h \<and>
   (hasFinishedLoading (ownSource e s) \<and> getImage (ownSource e s) \<noteq> NullImage \<longrightarrow>
      getWidth (cachedImage (setSize w h e s)) = w \<and>
      getHeight (cachedImage (setSize w h e s)) = h) \<and>
   (\<not> hasFinishedLoading (ownSource e s) \<longrightarrow>
      cachedImage (setSize w h e s) = cachedImage s)"
  by (cases "getImage (thumbnails e (audioThumbnailImage s))")
     (auto simp: setSize_def resized_def ownSource_def jmax_def Let_def)

theorem resized_images_witness:
  "getWidth (cursorImage (setSize 800 200 (loadedEnv 0) newDisplay)) = 3 \<and>
   getHeight (cursorImage (setSize 800 200 (loadedEnv 0) newDisplay)) = 200 \<and>
   hasFinishedLoading (ownSource (loadedEnv 0) newDisplay) \<and>
   getImage (ownSource (loadedEnv 0) newDisplay) \<noteq> NullImage \<and>
   getWidth (cachedImage (setSize 800 200 (loadedEnv 0) newDisplay)) = 800 \<and>
   getHeight (cachedImage (setSize 800 200 (loadedEnv 0) newDisplay)) = 200 \<and>
   \<not> hasFinishedLoading (ownSource unloadedEnv newDisplay) \<and>
   cachedImage (setSize 800 200 unloadedEnv newDisplay) = cachedImage newDisplay"
proof -
  have a: "hasFinishedLoading (ownSource (loadedEnv 0) newDisplay)"
    "getImage (ownSource (loadedEnv 0) newDisplay) \<noteq> NullImage"
    "\<not> hasFinishedLoading (ownSource unloadedEnv newDisplay)"
    by (simp_all add: fixture_defs ownSource_def)
  from resized_images [of 800 200 "loadedEnv 0" newDisplay]
    resized_images [of 800 200 unloadedEnv newDisplay] a
  show ?thesis by simp
qed

subsection \<open>Notifications and the source they name\<close>



end
